theory Spec2Isabelle
  imports Complex_Main "HOL-Library.AList"
begin

section \<open>Python values and exceptions\<close>

text \<open>
  The client is dynamically typed: a JSON body decodes to nested dictionaries, lists,
  strings, numbers, booleans and \<open>None\<close>, and caller arguments such as \<open>station_id\<close>
  or \<open>after_ts\<close> are handed on unchecked (only \<open>station_id\<close> is checked with
  \<open>isinstance\<close>). Values are therefore one datatype. A dictionary is an association
  list in insertion order; floats are modelled by the real number they denote.
\<close>

datatype pyval =
    PyNone
  | PyBool bool
  | PyInt int
  | PyFloat real
  | PyStr string
  | PyList "pyval list"
  | PyDict "(string \<times> pyval) list"

text \<open>
  The exceptions that can leave the client: the failed \<open>assert\<close>, a failed subscript
  (\<open>KeyError\<close> with the missing key, \<open>TypeError\<close> when the value cannot be subscripted
  with a string or iterated), the three ways \<open>_get\<close> fails (the transport raising,
  \<open>raise_for_status\<close> with the status code, the body not being JSON), and the two
  ways \<open>time.sleep\<close> refuses a delay.
\<close>

datatype error =
    AssertionError
  | KeyError string
  | TypeError
  | RequestException
  | HTTPError nat
  | JSONDecodeError
  | OverflowError
  | ValueError

text \<open>\<open>isinstance(v, int)\<close>: \<open>bool\<close> is a subclass of \<open>int\<close> in Python.\<close>

fun isinstance_int :: "pyval \<Rightarrow> bool" where
  "isinstance_int (PyInt i) = True"
| "isinstance_int (PyBool b) = True"
| "isinstance_int v = False"

text \<open>Truth value testing, as \<open>while v:\<close> and \<open>v and w\<close> perform it.\<close>

fun truthy :: "pyval \<Rightarrow> bool" where
  "truthy PyNone = False"
| "truthy (PyBool b) = b"
| "truthy (PyInt i) = (i \<noteq> 0)"
| "truthy (PyFloat x) = (x \<noteq> 0)"
| "truthy (PyStr s) = (s \<noteq> [])"
| "truthy (PyList xs) = (xs \<noteq> [])"
| "truthy (PyDict kvs) = (kvs \<noteq> [])"

text \<open>\<open>raw[key]\<close> with a string key.\<close>

fun subscript :: "pyval \<Rightarrow> string \<Rightarrow> error + pyval" where
  "subscript (PyDict kvs) key =
     (case map_of kvs key of None \<Rightarrow> Inl (KeyError key) | Some v \<Rightarrow> Inr v)"
| "subscript v key = Inl TypeError"

text \<open>
  \<open>for m in v\<close>: a list gives its elements, a string its characters, a dictionary its
  keys; nothing else is iterable.
\<close>

fun py_iter :: "pyval \<Rightarrow> error + pyval list" where
  "py_iter (PyList xs) = Inr xs"
| "py_iter (PyStr s) = Inr (map (\<lambda>c. PyStr [c]) s)"
| "py_iter (PyDict kvs) = Inr (map (\<lambda>kv. PyStr (fst kv)) kvs)"
| "py_iter v = Inl TypeError"

text \<open>Sequencing of computations that may raise: the first exception wins.\<close>

fun bind_e :: "error + 'a \<Rightarrow> ('a \<Rightarrow> error + 'b) \<Rightarrow> error + 'b" where
  "bind_e (Inl e) f = Inl e"
| "bind_e (Inr x) f = f x"

text \<open>A list comprehension \<open>[f(m) for m in xs]\<close> whose body may raise.\<close>

fun map_e :: "('a \<Rightarrow> error + 'b) \<Rightarrow> 'a list \<Rightarrow> error + 'b list" where
  "map_e f [] = Inr []"
| "map_e f (x # xs) = bind_e (f x) (\<lambda>y. bind_e (map_e f xs) (\<lambda>ys. Inr (y # ys)))"

text \<open>\<open>"{0}".format(v)\<close> for the values that pass the \<open>isinstance(v, int)\<close> check.\<close>

fun str_nat :: "nat \<Rightarrow> string" where
  "str_nat n =
     (if n < 10 then [''0123456789'' ! n]
      else str_nat (n div 10) @ [''0123456789'' ! (n mod 10)])"

declare str_nat.simps [simp del]

definition str_int :: "int \<Rightarrow> string" where
  "str_int i = (if i < 0 then CHR ''-'' # str_nat (nat (- i)) else str_nat (nat i))"

fun format0 :: "pyval \<Rightarrow> string" where
  "format0 (PyInt i) = str_int i"
| "format0 (PyBool b) = (if b then ''True'' else ''False'')"
| "format0 v = []"

section \<open>Record types\<close>

record MagstarStationExtendedData =
  station_id :: pyval
  name :: pyval
  location :: pyval
  lat :: pyval
  lon :: pyval
  acronym :: pyval
  status :: pyval
  last_seen :: pyval
  earliest_timestamp :: pyval
  latest_timestamp :: pyval
  latest_x :: pyval
  latest_y :: pyval
  latest_z :: pyval
  latest_horizontal_field_angle :: pyval
  latest_horizontal_field_magnitude :: pyval

definition MagstarStationExtendedData_from_api ::
    "pyval \<Rightarrow> error + MagstarStationExtendedData" where
  "MagstarStationExtendedData_from_api raw =
     bind_e (subscript raw ''station_id'') (\<lambda>v1.
     bind_e (subscript raw ''name'') (\<lambda>v2.
     bind_e (subscript raw ''location'') (\<lambda>v3.
     bind_e (subscript raw ''lat'') (\<lambda>v4.
     bind_e (subscript raw ''lon'') (\<lambda>v5.
     bind_e (subscript raw ''acronym'') (\<lambda>v6.
     bind_e (subscript raw ''status'') (\<lambda>v7.
     bind_e (subscript raw ''last_seen'') (\<lambda>v8.
     bind_e (subscript raw ''earliest_timestamp'') (\<lambda>v9.
     bind_e (subscript raw ''latest_timestamp'') (\<lambda>v10.
     bind_e (subscript raw ''latest_x'') (\<lambda>v11.
     bind_e (subscript raw ''latest_y'') (\<lambda>v12.
     bind_e (subscript raw ''latest_z'') (\<lambda>v13.
     bind_e (subscript raw ''latest_horizontal_field_angle'') (\<lambda>v14.
     bind_e (subscript raw ''latest_horizontal_field_magnitude'') (\<lambda>v15.
     Inr \<lparr> station_id = v1, name = v2, location = v3, lat = v4, lon = v5,
           acronym = v6, status = v7, last_seen = v8, earliest_timestamp = v9,
           latest_timestamp = v10, latest_x = v11, latest_y = v12, latest_z = v13,
           latest_horizontal_field_angle = v14,
           latest_horizontal_field_magnitude = v15 \<rparr>)))))))))))))))"

record MagstarMeasurement =
  timestamp :: pyval
  b_x :: pyval
  b_y :: pyval
  b_z :: pyval
  temperature :: pyval
  horizontal_field_angle :: pyval
  horizontal_field_magnitude :: pyval
  operator_config_hash :: pyval
  instrument_config_hash :: pyval

definition MagstarMeasurement_from_api :: "pyval \<Rightarrow> error + MagstarMeasurement" where
  "MagstarMeasurement_from_api raw =
     bind_e (subscript raw ''timestamp'') (\<lambda>v1.
     bind_e (subscript raw ''x'') (\<lambda>v2.
     bind_e (subscript raw ''y'') (\<lambda>v3.
     bind_e (subscript raw ''z'') (\<lambda>v4.
     bind_e (subscript raw ''temperature'') (\<lambda>v5.
     bind_e (subscript raw ''horizontal_field_angle'') (\<lambda>v6.
     bind_e (subscript raw ''horizontal_field_magnitude'') (\<lambda>v7.
     bind_e (subscript raw ''operator_config_hash'') (\<lambda>v8.
     bind_e (subscript raw ''instrument_config_hash'') (\<lambda>v9.
     Inr \<lparr> timestamp = v1, b_x = v2, b_y = v3, b_z = v4, temperature = v5,
           horizontal_field_angle = v6, horizontal_field_magnitude = v7,
           operator_config_hash = v8, instrument_config_hash = v9 \<rparr>)))))))))"

record MagstarMeasurementResult =
  measurements :: "MagstarMeasurement list"
  has_further_data :: pyval
  next_ts :: pyval

definition MagstarMeasurementResult_from_api ::
    "pyval \<Rightarrow> error + MagstarMeasurementResult" where
  "MagstarMeasurementResult_from_api raw =
     bind_e (bind_e (subscript raw ''measurements'') (\<lambda>ms.
             bind_e (py_iter ms) (map_e MagstarMeasurement_from_api))) (\<lambda>v1.
     bind_e (subscript raw ''has_further_data'') (\<lambda>v2.
     bind_e (subscript raw ''next_ts'') (\<lambda>v3.
     Inr \<lparr> measurements = v1, has_further_data = v2, next_ts = v3 \<rparr>)))"

section \<open>The transport\<close>

text \<open>
  One outgoing GET: the base URL and sub-URL handed to \<open>urljoin\<close>, the \<open>params\<close>
  dictionary (\<open>None\<close> when the caller passes none) and the headers.
\<close>

record request =
  req_base_url :: string
  req_sub_url :: string
  req_params :: "(string \<times> pyval) list option"
  req_headers :: "(string \<times> string) list"

text \<open>
  What the session does with a request: it raises, or it returns a response with a
  status code and a body, which decodes as JSON or does not.
\<close>

datatype http_reply =
    ConnectionFailed
  | Response nat "pyval option"

text \<open>
  The observable effects, most recent first: requests handed to the session and
  completed calls of \<open>time.sleep\<close>. The service is any function of the history and
  the request.
\<close>

datatype event = Request request | Sleep real

type_synonym world = "event list"

type_synonym server = "world \<Rightarrow> request \<Rightarrow> http_reply"

record MagstarV1API =
  base_url :: string
  api_key :: string

definition version :: string where
  "version = ''0.1.0''"

definition make_request ::
    "MagstarV1API \<Rightarrow> string \<Rightarrow> (string \<times> pyval) list option \<Rightarrow> request" where
  "make_request self sub_url params =
     \<lparr> req_base_url = base_url self, req_sub_url = sub_url, req_params = params,
       req_headers = [(''X-API-Key'', api_key self),
                      (''User-Agent'', ''MagstarV1API ('' @ version @ '')'')] \<rparr>"

text \<open>\<open>result.raise_for_status()\<close> followed by \<open>result.json()\<close>.\<close>

fun read_reply :: "http_reply \<Rightarrow> error + pyval" where
  "read_reply ConnectionFailed = Inl RequestException"
| "read_reply (Response code body) =
     (if 400 \<le> code \<and> code < 600 then Inl (HTTPError code)
      else case body of None \<Rightarrow> Inl JSONDecodeError | Some j \<Rightarrow> Inr j)"

definition api_get ::
    "server \<Rightarrow> MagstarV1API \<Rightarrow> string \<Rightarrow> (string \<times> pyval) list option \<Rightarrow> world
      \<Rightarrow> (error + pyval) \<times> world" where
  "api_get srv self sub_url params w =
     (let r = make_request self sub_url params
      in (read_reply (srv w r), Request r # w))"

text \<open>
  \<open>time.sleep(d)\<close> converts the delay to a signed 64-bit count of nanoseconds and
  raises \<open>OverflowError\<close> when the count is not in the range from \<open>-2^63\<close> up to,
  but not including, \<open>2^63\<close>; it raises \<open>ValueError\<close> for a negative delay;
  otherwise it returns after the delay. Nothing is recorded for a call that raises. The
  rounding of the count is left out.
\<close>

definition time_sleep :: "real \<Rightarrow> world \<Rightarrow> error option \<times> world" where
  "time_sleep d w =
     (if d * 10 ^ 9 < - (2 ^ 63) \<or> 2 ^ 63 \<le> d * 10 ^ 9 then (Some OverflowError, w)
      else if d < 0 then (Some ValueError, w)
      else (None, Sleep d # w))"

text \<open>The delays that \<open>time.sleep\<close> accepts.\<close>

definition sleep_fits :: "real \<Rightarrow> bool" where
  "sleep_fits d = (0 \<le> d \<and> d * 10 ^ 9 < 2 ^ 63)"

section \<open>Station and measurement queries\<close>

definition get_station_details_by_id ::
    "server \<Rightarrow> MagstarV1API \<Rightarrow> pyval \<Rightarrow> world
      \<Rightarrow> (error + MagstarStationExtendedData) \<times> world" where
  "get_station_details_by_id srv self sid w =
     (if \<not> isinstance_int sid then (Inl AssertionError, w)
      else case api_get srv self (''/v1/stations/'' @ format0 sid) None w of
             (Inl e, w') \<Rightarrow> (Inl e, w')
           | (Inr raw, w') \<Rightarrow> (MagstarStationExtendedData_from_api raw, w'))"

text \<open>The \<open>params\<close> dictionary that \<open>get_station_measurements_by_id\<close> builds.\<close>

definition measurements_params ::
    "pyval \<Rightarrow> pyval \<Rightarrow> pyval \<Rightarrow> bool \<Rightarrow> (string \<times> pyval) list" where
  "measurements_params after_ts before_ts limit reverse_order =
     (let params = [(''reverse_order'', PyBool reverse_order)];
          params = (if after_ts \<noteq> PyNone
                    then AList.update ''after_ts'' after_ts params else params);
          params = (if before_ts \<noteq> PyNone
                    then AList.update ''before_ts'' before_ts params else params);
          params = (if limit \<noteq> PyNone
                    then AList.update ''limit'' limit params else params)
      in params)"

definition get_station_measurements_by_id ::
    "server \<Rightarrow> MagstarV1API \<Rightarrow> pyval \<Rightarrow> pyval \<Rightarrow> pyval \<Rightarrow> pyval \<Rightarrow> bool \<Rightarrow> world
      \<Rightarrow> (error + MagstarMeasurementResult) \<times> world" where
  "get_station_measurements_by_id srv self sid after_ts before_ts limit reverse_order w =
     (if \<not> isinstance_int sid then (Inl AssertionError, w)
      else case api_get srv self (''/v1/stations/'' @ format0 sid @ ''/measurements'')
                  (Some (measurements_params after_ts before_ts limit reverse_order)) w of
             (Inl e, w') \<Rightarrow> (Inl e, w')
           | (Inr raw, w') \<Rightarrow> (MagstarMeasurementResult_from_api raw, w'))"

section \<open>The streaming iterator\<close>

text \<open>
  \<open>iterate_station_measurements\<close> is a generator function. Calling it runs nothing and
  returns a generator object holding the arguments; each \<open>next\<close> resumes the body until
  the next \<open>yield\<close>, the end of the body (\<open>StopIteration\<close>) or an exception. The frame
  holds the local variables of the body.
\<close>

record frame =
  f_station_id :: pyval
  f_reverse_order :: bool
  poll_delay :: real
  need_measurements :: pyval
  next_after_ts :: pyval
  next_before_ts :: pyval

datatype generator =
    Created pyval pyval pyval bool real
  | Suspended frame "MagstarMeasurement list" MagstarMeasurementResult
  | Finished

datatype outcome = Yielded MagstarMeasurement | StopIteration | Raised error

definition iterate_station_measurements ::
    "pyval \<Rightarrow> pyval \<Rightarrow> pyval \<Rightarrow> bool \<Rightarrow> real \<Rightarrow> generator" where
  "iterate_station_measurements sid after_ts before_ts reverse_order pd =
     Created sid after_ts before_ts reverse_order pd"

text \<open>The assignments before the loop.\<close>

definition enter :: "pyval \<Rightarrow> pyval \<Rightarrow> pyval \<Rightarrow> bool \<Rightarrow> real \<Rightarrow> frame" where
  "enter sid after_ts before_ts reverse_order pd =
     \<lparr> f_station_id = sid, f_reverse_order = reverse_order,
       poll_delay = max pd 0.1,
       need_measurements = PyBool True,
       next_after_ts = after_ts, next_before_ts = before_ts \<rparr>"

text \<open>The assignments after the \<open>for\<close> loop over a page.\<close>

definition end_of_page :: "frame \<Rightarrow> MagstarMeasurementResult \<Rightarrow> frame" where
  "end_of_page f result =
     (let f = f\<lparr>need_measurements := has_further_data result\<rparr>
      in if truthy (has_further_data result) \<and> f_reverse_order f
         then f\<lparr>next_before_ts := next_ts result\<rparr>
         else if truthy (has_further_data result)
         then f\<lparr>next_after_ts := next_ts result\<rparr>
         else f)"

text \<open>
  The \<open>while\<close> loop from its head to the next suspension. A page without
  measurements yields nothing, so the loop sleeps and goes round again, and a service
  that keeps answering with empty pages and \<open>has_further_data\<close> keeps it running for
  ever: the first argument bounds the number of rounds, and \<open>None\<close> means that the
  bound was reached. An exception of the fetch or of the sleep leaves the generator
  finished.
\<close>

fun while_loop ::
    "nat \<Rightarrow> server \<Rightarrow> MagstarV1API \<Rightarrow> frame \<Rightarrow> world
      \<Rightarrow> (outcome \<times> generator \<times> world) option" where
  "while_loop 0 srv self f w = None"
| "while_loop (Suc n) srv self f w =
     (if \<not> truthy (need_measurements f) then Some (StopIteration, Finished, w)
      else case get_station_measurements_by_id srv self (f_station_id f)
                  (next_after_ts f) (next_before_ts f) (PyInt 2500)
                  (f_reverse_order f) w of
             (Inl e, w') \<Rightarrow> Some (Raised e, Finished, w')
           | (Inr result, w') \<Rightarrow>
               (case measurements result of
                  m # ms \<Rightarrow> Some (Yielded m, Suspended f ms result, w')
                | [] \<Rightarrow>
                    (case time_sleep (poll_delay (end_of_page f result)) w' of
                       (Some e, w'') \<Rightarrow> Some (Raised e, Finished, w'')
                     | (None, w'') \<Rightarrow>
                         while_loop n srv self (end_of_page f result) w'')))"

text \<open>\<open>next(gen)\<close>.\<close>

fun gen_next ::
    "nat \<Rightarrow> server \<Rightarrow> MagstarV1API \<Rightarrow> generator \<Rightarrow> world
      \<Rightarrow> (outcome \<times> generator \<times> world) option" where
  "gen_next n srv self (Created sid after_ts before_ts reverse_order pd) w =
     while_loop n srv self (enter sid after_ts before_ts reverse_order pd) w"
| "gen_next n srv self (Suspended f (m # ms) result) w =
     Some (Yielded m, Suspended f ms result, w)"
| "gen_next n srv self (Suspended f [] result) w =
     (case time_sleep (poll_delay (end_of_page f result)) w of
        (Some e, w') \<Rightarrow> Some (Raised e, Finished, w')
      | (None, w') \<Rightarrow> while_loop n srv self (end_of_page f result) w')"
| "gen_next n srv self Finished w = Some (StopIteration, Finished, w)"

text \<open>
  A consumer that asks for at most \<open>k\<close> elements, as \<open>itertools.islice(gen, k)\<close> or a
  \<open>for\<close> loop left by \<open>break\<close> does: it ends with the generator exhausted, with the
  exception the generator raised, or having stopped asking.
\<close>

datatype ending = Exhausted | Failed error | Paused

fun pull ::
    "nat \<Rightarrow> nat \<Rightarrow> server \<Rightarrow> MagstarV1API \<Rightarrow> generator \<Rightarrow> world
      \<Rightarrow> (MagstarMeasurement list \<times> ending \<times> generator \<times> world) option" where
  "pull 0 n srv self g w = Some ([], Paused, g, w)"
| "pull (Suc k) n srv self g w =
     (case gen_next n srv self g w of
        None \<Rightarrow> None
      | Some (Yielded m, g', w') \<Rightarrow>
          (case pull k n srv self g' w' of
             None \<Rightarrow> None
           | Some (ms, e, g'', w'') \<Rightarrow> Some (m # ms, e, g'', w''))
      | Some (StopIteration, g', w') \<Rightarrow> Some ([], Exhausted, g', w')
      | Some (Raised e, g', w') \<Rightarrow> Some ([], Failed e, g', w'))"

section \<open>Reading the trace\<close>

text \<open>The requests of a trace, oldest first.\<close>

fun requests_of :: "world \<Rightarrow> request list" where
  "requests_of [] = []"
| "requests_of (Request r # w) = requests_of w @ [r]"
| "requests_of (Sleep d # w) = requests_of w"

text \<open>A query parameter of a request, if the request has it.\<close>

definition query_param :: "request \<Rightarrow> string \<Rightarrow> pyval option" where
  "query_param r key = (case req_params r of None \<Rightarrow> None | Some ps \<Rightarrow> map_of ps key)"

text \<open>
  The bound a request carries on one side: the parameter's value, \<open>None\<close> when the
  parameter is absent (the side is then unbounded, as with the argument \<open>None\<close>).
\<close>

definition param_of :: "request \<Rightarrow> string \<Rightarrow> pyval" where
  "param_of r key = (case query_param r key of None \<Rightarrow> PyNone | Some v \<Rightarrow> v)"

text \<open>The request that \<open>get_station_measurements_by_id\<close> sends.\<close>

definition measurements_request ::
    "MagstarV1API \<Rightarrow> pyval \<Rightarrow> pyval \<Rightarrow> pyval \<Rightarrow> pyval \<Rightarrow> bool \<Rightarrow> request" where
  "measurements_request self sid after_ts before_ts limit reverse_order =
     make_request self (''/v1/stations/'' @ format0 sid @ ''/measurements'')
       (Some (measurements_params after_ts before_ts limit reverse_order))"

text \<open>
  A trace in which fetches and delays of \<open>d\<close> seconds alternate, starting with a fetch:
  between two successive requests there is exactly one sleep, and it lasts \<open>d\<close>.
\<close>

fun paced :: "real \<Rightarrow> world \<Rightarrow> bool" where
  "paced d [] = True"
| "paced d [Request r] = True"
| "paced d (Request r # Sleep x # w) = paced d (Sleep x # w)"
| "paced d (Sleep x # Request r # w) = (x = d \<and> paced d (Request r # w))"
| "paced d w = False"



section \<open>A scripted service for concrete runs\<close>

text \<open>
  A service that answers the \<open>k\<close>-th request it receives with the \<open>k\<close>-th reply of a
  script, whatever the request, and refuses the connection once the script is used up.
\<close>

definition scripted :: "http_reply list \<Rightarrow> server" where
  "scripted replies w r =
     (let k = length (requests_of w)
      in if k < length replies then replies ! k else ConnectionFailed)"

definition demo_api :: MagstarV1API where
  "demo_api = \<lparr> base_url = ''https://magstar.example'', api_key = ''secret'' \<rparr>"

definition measurement_json :: "real \<Rightarrow> pyval" where
  "measurement_json t =
     PyDict [(''timestamp'', PyFloat t), (''x'', PyFloat 1), (''y'', PyFloat 2),
             (''z'', PyFloat 3), (''temperature'', PyFloat 20),
             (''horizontal_field_angle'', PyNone),
             (''horizontal_field_magnitude'', PyNone),
             (''operator_config_hash'', PyNone),
             (''instrument_config_hash'', PyNone)]"

definition demo_measurement :: "real \<Rightarrow> MagstarMeasurement" where
  "demo_measurement t =
     \<lparr> timestamp = PyFloat t, b_x = PyFloat 1, b_y = PyFloat 2, b_z = PyFloat 3,
       temperature = PyFloat 20, horizontal_field_angle = PyNone,
       horizontal_field_magnitude = PyNone, operator_config_hash = PyNone,
       instrument_config_hash = PyNone \<rparr>"

definition page_json :: "real list \<Rightarrow> pyval \<Rightarrow> pyval \<Rightarrow> pyval" where
  "page_json ts further cursor =
     PyDict [(''measurements'', PyList (map measurement_json ts)),
             (''has_further_data'', further), (''next_ts'', cursor)]"

definition demo_page :: "real list \<Rightarrow> pyval \<Rightarrow> pyval \<Rightarrow> MagstarMeasurementResult" where
  "demo_page ts further cursor =
     \<lparr> measurements = map demo_measurement ts, has_further_data = further,
       next_ts = cursor \<rparr>"

text \<open>
  Three pages: two measurements and more to come, an empty page and more to come, one
  measurement and no more.
\<close>

definition three_page_script :: "http_reply list" where
  "three_page_script =
     [Response 200 (Some (page_json [1, 2] (PyBool True) (PyFloat 2))),
      Response 200 (Some (page_json [] (PyBool True) (PyFloat 2))),
      Response 200 (Some (page_json [3] (PyBool False) PyNone))]"


text \<open>An empty page that reports further data, then a page of one measurement.\<close>

definition empty_first_page_script :: "http_reply list" where
  "empty_first_page_script =
     [Response 200 (Some (page_json [] (PyBool True) (PyFloat 2))),
      Response 200 (Some (page_json [3] (PyBool False) PyNone))]"

text \<open>The keys that \<open>MagstarStationExtendedData.from_api\<close> reads.\<close>

definition detail_keys :: "string list" where
  "detail_keys =
     [''station_id'', ''name'', ''location'', ''lat'', ''lon'', ''acronym'', ''status'',
      ''last_seen'', ''earliest_timestamp'', ''latest_timestamp'', ''latest_x'',
      ''latest_y'', ''latest_z'', ''latest_horizontal_field_angle'',
      ''latest_horizontal_field_magnitude'']"

definition detail_json :: "pyval \<Rightarrow> pyval" where
  "detail_json v =
     PyDict (map (\<lambda>k. (k, if k = ''station_id'' then v else PyNone)) detail_keys)"

section \<open>Invariants of the iterator\<close>

text \<open>
  What holds of the generator and of the events since its creation, for the delay \<open>d\<close>:
  the events are paced, a generator that has not run has caused none, and a suspended
  generator has just fetched a page.
\<close>

definition paced_state :: "real \<Rightarrow> world \<Rightarrow> generator \<Rightarrow> world \<Rightarrow> bool" where
  "paced_state d w0 g w =
     (\<exists>evs. w = evs @ w0 \<and> paced d evs \<and>
        (case g of
           Created sid a b ro pd \<Rightarrow> evs = [] \<and> max pd 0.1 = d
         | Suspended f ms p \<Rightarrow> poll_delay f = d \<and> (\<exists>r rest. evs = Request r # rest)
         | Finished \<Rightarrow> True))"




section \<open>Basic facts\<close>

lemma end_of_page_fixed [simp]:
  "poll_delay (end_of_page f p) = poll_delay f"
  "f_station_id (end_of_page f p) = f_station_id f"
  "f_reverse_order (end_of_page f p) = f_reverse_order f"
  by (simp_all add: end_of_page_def Let_def)

lemma scripted_eq:
  "scripted replies w r =
     (if length (requests_of w) < length replies then replies ! length (requests_of w)
      else ConnectionFailed)"
  by (simp add: scripted_def Let_def)

lemma bind_e_Inr: "bind_e m f = Inr y \<longleftrightarrow> (\<exists>x. m = Inr x \<and> f x = Inr y)"
  by (cases m) auto

lemma from_api_station_id:
  "MagstarStationExtendedData_from_api raw = Inr d \<Longrightarrow>
   subscript raw ''station_id'' = Inr (station_id d)"
  unfolding MagstarStationExtendedData_from_api_def bind_e_Inr
  by auto

lemma from_api_total:
  assumes "\<forall>k\<in>set detail_keys. map_of kvs k \<noteq> None"
  shows "\<exists>d. MagstarStationExtendedData_from_api (PyDict kvs) = Inr d"
proof -
  have "\<forall>k\<in>set detail_keys. \<exists>v. subscript (PyDict kvs) k = Inr v"
    using assms by auto
  then show ?thesis
    unfolding MagstarStationExtendedData_from_api_def detail_keys_def
    by (auto simp del: subscript.simps)
qed

lemma get_station_measurements_by_id_eq:
  "isinstance_int sid \<Longrightarrow>
   get_station_measurements_by_id srv self sid a b l ro w =
     (bind_e (read_reply (srv w (measurements_request self sid a b l ro)))
        MagstarMeasurementResult_from_api,
      Request (measurements_request self sid a b l ro) # w)"
  unfolding get_station_measurements_by_id_def measurements_request_def api_get_def
  by (simp add: Let_def split: sum.splits)

lemma get_station_measurements_by_id_not_int:
  "\<not> isinstance_int sid \<Longrightarrow>
   get_station_measurements_by_id srv self sid a b l ro w = (Inl AssertionError, w)"
  by (simp add: get_station_measurements_by_id_def)

lemma params_reverse_order:
  "map_of (measurements_params a b l ro) ''reverse_order'' = Some (PyBool ro)"
  by (simp add: measurements_params_def Let_def update_conv')

lemma params_after_ts:
  "map_of (measurements_params a b l ro) ''after_ts'' = (if a = PyNone then None else Some a)"
  by (simp add: measurements_params_def Let_def update_conv')

lemma params_before_ts:
  "map_of (measurements_params a b l ro) ''before_ts'' = (if b = PyNone then None else Some b)"
  by (simp add: measurements_params_def Let_def update_conv')

lemma params_limit:
  "map_of (measurements_params a b l ro) ''limit'' = (if l = PyNone then None else Some l)"
  by (simp add: measurements_params_def Let_def update_conv')

lemma params_keys:
  "dom (map_of (measurements_params a b l ro)) =
     {''reverse_order''} \<union> (if a = PyNone then {} else {''after_ts''})
       \<union> (if b = PyNone then {} else {''before_ts''})
       \<union> (if l = PyNone then {} else {''limit''})"
  by (auto simp: measurements_params_def Let_def update_conv' dom_update)

lemma query_param_measurements_request:
  "query_param (measurements_request self sid a b l ro) key =
     map_of (measurements_params a b l ro) key"
  by (simp add: query_param_def measurements_request_def make_request_def)

section \<open>Station id check\<close>

text \<open>
  Claim C3, as the code has it. The check is \<open>isinstance(station_id, int)\<close>, and
  \<open>bool\<close> is a subclass of \<open>int\<close>. For every value of \<open>station_id\<close> that is
  neither an \<open>int\<close> nor a \<open>bool\<close>, \<open>get_station_details_by_id\<close> fails on its
  \<open>assert\<close> (the invalid-argument condition of this client is Python's
  \<open>AssertionError\<close>) and the trace is left as it was: no request is handed to the
  session. A boolean passes the check, and the request for \<open>/v1/stations/True\<close> or
  \<open>/v1/stations/False\<close> is sent. The \<open>assert\<close> is taken as executed.
\<close>

theorem get_station_details_station_id_check:
  "((\<forall>i. sid \<noteq> PyInt i) \<and> (\<forall>b. sid \<noteq> PyBool b) \<longrightarrow>
      get_station_details_by_id srv self sid w = (Inl AssertionError, w)) \<and>
   snd (get_station_details_by_id srv self (PyBool t) w) =
     Request (make_request self (''/v1/stations/'' @ (if t then ''True'' else ''False'')) None)
       # w"
proof (intro conjI impI)
  assume "(\<forall>i. sid \<noteq> PyInt i) \<and> (\<forall>b. sid \<noteq> PyBool b)"
  then have "\<not> isinstance_int sid"
    by (cases sid) auto
  then show "get_station_details_by_id srv self sid w = (Inl AssertionError, w)"
    by (simp add: get_station_details_by_id_def)
next
  show "snd (get_station_details_by_id srv self (PyBool t) w) =
      Request (make_request self (''/v1/stations/'' @ (if t then ''True'' else ''False''))
        None) # w"
    by (simp add: get_station_details_by_id_def api_get_def Let_def split: sum.splits)
qed

theorem get_station_details_station_id_check_witness:
  "(\<forall>i. PyStr ''7'' \<noteq> PyInt i) \<and> (\<forall>b. PyStr ''7'' \<noteq> PyBool b) \<and>
   (\<forall>i. PyFloat 7 \<noteq> PyInt i) \<and> (\<forall>b. PyFloat 7 \<noteq> PyBool b) \<and>
   get_station_details_by_id (scripted [Response 200 (Some PyNone)]) demo_api
     (PyStr ''7'') [] = (Inl AssertionError, []) \<and>
   get_station_details_by_id (scripted [Response 200 (Some PyNone)]) demo_api
     (PyFloat 7) [] = (Inl AssertionError, [])"
proof -
  have s: "(\<forall>i. PyStr ''7'' \<noteq> PyInt i) \<and> (\<forall>b. PyStr ''7'' \<noteq> PyBool b)"
    and f: "(\<forall>i. PyFloat 7 \<noteq> PyInt i) \<and> (\<forall>b. PyFloat 7 \<noteq> PyBool b)"
    by simp_all
  show ?thesis
    using s f get_station_details_station_id_check [THEN conjunct1, THEN mp, OF s]
      get_station_details_station_id_check [THEN conjunct1, THEN mp, OF f]
    by blast
qed

text \<open>
  The claim as worded fails at the boolean \<open>True\<close>, which is not an integer value: the
  call does not fail on the check, it sends the request for \<open>/v1/stations/True\<close>, and
  here the error is that of the service's answer.
\<close>

theorem boolean_station_id_sent_counterexample:
  "get_station_details_by_id (scripted [Response 404 None]) demo_api (PyBool True) [] =
     (Inl (HTTPError 404), [Request (make_request demo_api ''/v1/stations/True'' None)]) \<and>
   get_station_details_by_id (scripted [Response 404 None]) demo_api (PyBool True) [] \<noteq>
     (Inl AssertionError, [])"
  by (simp add: get_station_details_by_id_def api_get_def Let_def scripted_def)

text \<open>
  Claim C10, as the code has it. \<open>get_station_measurements_by_id\<close> makes the same
  check first: for every value of \<open>station_id\<close> that is neither an \<open>int\<close> nor a
  \<open>bool\<close> it fails on the \<open>assert\<close>, whatever the other arguments, and no request
  is handed to the session. A boolean passes the check, and the request for
  \<open>/v1/stations/True/measurements\<close> or \<open>/v1/stations/False/measurements\<close> is
  sent.
\<close>

theorem get_station_measurements_station_id_check:
  "((\<forall>i. sid \<noteq> PyInt i) \<and> (\<forall>b. sid \<noteq> PyBool b) \<longrightarrow>
      get_station_measurements_by_id srv self sid after_ts before_ts limit ro w =
        (Inl AssertionError, w)) \<and>
   snd (get_station_measurements_by_id srv self (PyBool t) after_ts before_ts limit ro w) =
     Request (make_request self
                (''/v1/stations/'' @ (if t then ''True'' else ''False'') @ ''/measurements'')
                (Some (measurements_params after_ts before_ts limit ro))) # w"
proof (intro conjI impI)
  assume "(\<forall>i. sid \<noteq> PyInt i) \<and> (\<forall>b. sid \<noteq> PyBool b)"
  then have "\<not> isinstance_int sid"
    by (cases sid) auto
  then show "get_station_measurements_by_id srv self sid after_ts before_ts limit ro w =
      (Inl AssertionError, w)"
    by (simp add: get_station_measurements_by_id_def)
next
  show "snd (get_station_measurements_by_id srv self (PyBool t) after_ts before_ts limit ro w)
      = Request (make_request self
                (''/v1/stations/'' @ (if t then ''True'' else ''False'') @ ''/measurements'')
                (Some (measurements_params after_ts before_ts limit ro))) # w"
    by (simp add: get_station_measurements_by_id_eq measurements_request_def)
qed

theorem get_station_measurements_station_id_check_witness:
  "(\<forall>i. PyStr ''7'' \<noteq> PyInt i) \<and> (\<forall>b. PyStr ''7'' \<noteq> PyBool b) \<and>
   get_station_measurements_by_id (scripted [Response 200 (Some PyNone)]) demo_api
     (PyStr ''7'') (PyFloat 10) PyNone (PyInt 5) False [] = (Inl AssertionError, [])"
proof -
  have s: "(\<forall>i. PyStr ''7'' \<noteq> PyInt i) \<and> (\<forall>b. PyStr ''7'' \<noteq> PyBool b)"
    by simp
  show ?thesis
    using s get_station_measurements_station_id_check [THEN conjunct1, THEN mp, OF s]
    by blast
qed

text \<open>
  The claim as worded fails at the boolean \<open>True\<close>: the call does not fail on the
  check, it sends the request for \<open>/v1/stations/True/measurements\<close>, and here the
  error is that of the service's answer.
\<close>

theorem boolean_station_id_measurements_counterexample:
  "get_station_measurements_by_id (scripted [Response 404 None]) demo_api (PyBool True)
     PyNone PyNone PyNone False [] =
     (Inl (HTTPError 404),
      [Request (measurements_request demo_api (PyBool True) PyNone PyNone PyNone False)]) \<and>
   req_sub_url (measurements_request demo_api (PyBool True) PyNone PyNone PyNone False) =
     ''/v1/stations/True/measurements'' \<and>
   get_station_measurements_by_id (scripted [Response 404 None]) demo_api (PyBool True)
     PyNone PyNone PyNone False [] \<noteq> (Inl AssertionError, [])"
  by (simp add: get_station_measurements_by_id_eq scripted_eq measurements_request_def
      make_request_def)

section \<open>Query parameters of a page request\<close>

text \<open>
  Claim C5. A call of \<open>get_station_measurements_by_id\<close> with an integer station id
  sends one request. When \<open>limit\<close> is omitted (\<open>None\<close>) the request has no \<open>limit\<close>
  parameter; when \<open>limit\<close> is the integer \<open>N\<close>, whatever its size, the parameter is
  \<open>N\<close> itself.
\<close>

theorem limit_parameter_passed_through:
  "isinstance_int sid \<Longrightarrow>
   (\<exists>r. snd (get_station_measurements_by_id srv self sid a b PyNone ro w) = Request r # w
        \<and> query_param r ''limit'' = None) \<and>
   (\<exists>r. snd (get_station_measurements_by_id srv self sid a b (PyInt N) ro w) = Request r # w
        \<and> query_param r ''limit'' = Some (PyInt N))"
  by (simp add: get_station_measurements_by_id_eq query_param_measurements_request
      params_limit)

theorem limit_parameter_passed_through_witness:
  "isinstance_int (PyInt 12) \<and>
   (\<exists>r. snd (get_station_measurements_by_id (scripted []) demo_api (PyInt 12)
              PyNone PyNone PyNone False []) = Request r # []
        \<and> query_param r ''limit'' = None) \<and>
   (\<exists>r. snd (get_station_measurements_by_id (scripted []) demo_api (PyInt 12)
              PyNone PyNone (PyInt 5000) False []) = Request r # []
        \<and> query_param r ''limit'' = Some (PyInt 5000))"
proof -
  have i: "isinstance_int (PyInt 12)"
    by simp
  show ?thesis
    using i limit_parameter_passed_through [OF i, of "scripted []" demo_api PyNone PyNone
        False "[]" 5000]
    by blast
qed

text \<open>
  Claim C6. The query parameters of the request always hold \<open>reverse_order\<close>, hold each
  of \<open>after_ts\<close>, \<open>before_ts\<close> and \<open>limit\<close> with the argument's value exactly when
  the argument is not \<open>None\<close>, and hold nothing else.
\<close>

theorem query_parameters_of_page_request:
  "isinstance_int sid \<Longrightarrow>
   (\<exists>r ps.
      snd (get_station_measurements_by_id srv self sid a b l ro w) = Request r # w \<and>
      req_params r = Some ps \<and>
      map_of ps ''reverse_order'' = Some (PyBool ro) \<and>
      map_of ps ''after_ts'' = (if a = PyNone then None else Some a) \<and>
      map_of ps ''before_ts'' = (if b = PyNone then None else Some b) \<and>
      map_of ps ''limit'' = (if l = PyNone then None else Some l) \<and>
      dom (map_of ps) =
        {''reverse_order''} \<union> (if a = PyNone then {} else {''after_ts''})
          \<union> (if b = PyNone then {} else {''before_ts''})
          \<union> (if l = PyNone then {} else {''limit''}))"
proof -
  assume i: "isinstance_int sid"
  let ?r = "measurements_request self sid a b l ro"
  have "snd (get_station_measurements_by_id srv self sid a b l ro w) = Request ?r # w"
    by (simp add: get_station_measurements_by_id_eq [OF i])
  moreover have "req_params ?r = Some (measurements_params a b l ro)"
    by (simp add: measurements_request_def make_request_def)
  ultimately show ?thesis
    using params_reverse_order [of a b l ro] params_after_ts [of a b l ro]
      params_before_ts [of a b l ro] params_limit [of a b l ro] params_keys [of a b l ro]
    by blast
qed

theorem query_parameters_of_page_request_witness:
  "isinstance_int (PyInt 12) \<and>
   (\<exists>r ps.
      snd (get_station_measurements_by_id (scripted []) demo_api (PyInt 12)
             (PyFloat 100) PyNone PyNone True []) = Request r # [] \<and>
      req_params r = Some ps \<and>
      map_of ps ''reverse_order'' = Some (PyBool True) \<and>
      map_of ps ''after_ts'' = Some (PyFloat 100) \<and>
      map_of ps ''before_ts'' = None \<and>
      map_of ps ''limit'' = None \<and>
      dom (map_of ps) = {''after_ts'', ''reverse_order''})"
proof -
  have i: "isinstance_int (PyInt 12)"
    by simp
  show ?thesis
    using i query_parameters_of_page_request [OF i, of "scripted []" demo_api
        "PyFloat 100" PyNone PyNone True "[]"]
    by simp
qed

section \<open>Station details\<close>

text \<open>
  Claim C9, as the code has it. \<open>get_station_details_by_id\<close> sends one request for
  \<open>/v1/stations/<id>\<close> and builds the record from the body: when the service answers
  without an error status with a JSON object that has the fifteen keys, the call
  returns a detail record whose \<open>station_id\<close> is the body's \<open>station_id\<close>. It is the
  requested id when the body carries the requested id; the client does not compare the
  two.
\<close>

theorem station_details_from_response:
  assumes "srv w (make_request self (''/v1/stations/'' @ str_int i) None) =
             Response code (Some (PyDict kvs))"
    and "code < 400 \<or> 600 \<le> code"
    and "\<forall>k\<in>set detail_keys. map_of kvs k \<noteq> None"
    and "map_of kvs ''station_id'' = Some v"
  shows "\<exists>d. get_station_details_by_id srv self (PyInt i) w =
               (Inr d, Request (make_request self (''/v1/stations/'' @ str_int i) None) # w)
             \<and> station_id d = v"
proof -
  obtain d where d: "MagstarStationExtendedData_from_api (PyDict kvs) = Inr d"
    using from_api_total [OF assms(3)] by blast
  have "station_id d = v"
    using from_api_station_id [OF d] assms(4) by simp
  moreover have "get_station_details_by_id srv self (PyInt i) w =
      (Inr d, Request (make_request self (''/v1/stations/'' @ str_int i) None) # w)"
    using assms(1,2) d by (auto simp: get_station_details_by_id_def api_get_def Let_def)
  ultimately show ?thesis
    by blast
qed

theorem station_details_from_response_witness:
  "scripted [Response 200 (Some (detail_json (PyInt 5)))] []
     (make_request demo_api (''/v1/stations/'' @ str_int 5) None) =
     Response 200 (Some (detail_json (PyInt 5))) \<and>
   (\<exists>d. get_station_details_by_id (scripted [Response 200 (Some (detail_json (PyInt 5)))])
          demo_api (PyInt 5) [] =
          (Inr d, [Request (make_request demo_api ''/v1/stations/5'' None)])
        \<and> station_id d = PyInt 5)"
proof -
  let ?srv = "scripted [Response 200 (Some (detail_json (PyInt 5)))]"
  let ?kvs = "map (\<lambda>k. (k, if k = ''station_id'' then PyInt 5 else PyNone)) detail_keys"
  have r: "?srv [] (make_request demo_api (''/v1/stations/'' @ str_int 5) None) =
      Response 200 (Some (PyDict ?kvs))"
    by (simp add: scripted_def detail_json_def)
  have c: "(200::nat) < 400 \<or> (600::nat) \<le> 200"
    by simp
  have k: "\<forall>k\<in>set detail_keys. map_of ?kvs k \<noteq> None"
    by (simp add: detail_keys_def)
  have v: "map_of ?kvs ''station_id'' = Some (PyInt 5)"
    by (simp add: detail_keys_def)
  have u: "''/v1/stations/'' @ str_int 5 = ''/v1/stations/5''"
    by (simp add: str_int_def str_nat.simps)
  show ?thesis
    using r station_details_from_response [of ?srv "[]" demo_api 5 200 ?kvs "PyInt 5",
        OF r c k v]
    unfolding u
    by (simp add: detail_json_def)
qed

text \<open>
  The claim as worded fails: a service that answers the request for station 5 with the
  record of station 7 makes the call return a record whose \<open>station_id\<close> is 7.
\<close>

theorem station_id_not_compared_counterexample:
  "\<exists>d. get_station_details_by_id (scripted [Response 200 (Some (detail_json (PyInt 7)))])
         demo_api (PyInt 5) [] =
         (Inr d, [Request (make_request demo_api ''/v1/stations/5'' None)])
       \<and> station_id d = PyInt 7 \<and> station_id d \<noteq> PyInt 5"
  by (simp add: get_station_details_by_id_def api_get_def Let_def scripted_def
      detail_json_def detail_keys_def MagstarStationExtendedData_from_api_def
      str_int_def str_nat.simps)

section \<open>Running the iterator\<close>

lemma time_sleep_fits: "sleep_fits d \<Longrightarrow> time_sleep d w = (None, Sleep d # w)"
  by (simp add: time_sleep_def sleep_fits_def)

lemma time_sleep_cases:
  assumes "time_sleep d w = (r, w')"
  obtains (slept) "r = None" "w' = Sleep d # w"
  | (raised) e where "r = Some e" "w' = w"
  using assms by (auto simp: time_sleep_def split: if_splits)







lemma fetch_Inr_int:
  "get_station_measurements_by_id srv self sid a b l ro w = (Inr p, w') \<Longrightarrow> isinstance_int sid"
  by (auto simp: get_station_measurements_by_id_def split: if_splits)

lemma fetch_Inr_world:
  "get_station_measurements_by_id srv self sid a b l ro w = (Inr p, w') \<Longrightarrow>
   w' = Request (measurements_request self sid a b l ro) # w"
  using fetch_Inr_int get_station_measurements_by_id_eq by fastforce

lemma fetch_cases:
  assumes "get_station_measurements_by_id srv self sid a b l ro w = (res, w')"
  obtains (refused) "res = Inl AssertionError" "w' = w"
  | (sent) "isinstance_int sid" "w' = Request (measurements_request self sid a b l ro) # w"
      "res = bind_e (read_reply (srv w (measurements_request self sid a b l ro)))
               MagstarMeasurementResult_from_api"
  using assms
  by (cases "isinstance_int sid")
    (auto simp: get_station_measurements_by_id_eq get_station_measurements_by_id_not_int)

lemma measurement_from_json:
  "MagstarMeasurement_from_api (measurement_json t) = Inr (demo_measurement t)"
  by (simp add: MagstarMeasurement_from_api_def measurement_json_def demo_measurement_def)

lemma measurements_from_json:
  "map_e MagstarMeasurement_from_api (map measurement_json ts) = Inr (map demo_measurement ts)"
  by (induction ts) (simp_all add: measurement_from_json)

lemma page_from_json:
  "MagstarMeasurementResult_from_api (page_json ts h c) = Inr (demo_page ts h c)"
  by (simp add: MagstarMeasurementResult_from_api_def page_json_def demo_page_def
      measurements_from_json)

section \<open>Concrete runs\<close>

lemma sleep_fits_floor:
  "sleep_fits (max 0 0.1)" "sleep_fits 0.1" "sleep_fits (max 1 0.1)" "sleep_fits 1"
  by (simp_all add: sleep_fits_def)

section \<open>Invariants of a run\<close>

lemma pull_invariant:
  assumes step: "\<And>n g w out g' w'. I g w \<Longrightarrow> gen_next n srv self g w = Some (out, g', w') \<Longrightarrow> I g' w'"
    and init: "I g w"
    and run: "pull k n srv self g w = Some (ms, e, g', w')"
  shows "I g' w'"
  using init run
proof (induction k arbitrary: g w ms)
  case 0
  then show ?case by simp
next
  case (Suc k)
  from Suc.prems(2) obtain out g1 w1 where s: "gen_next n srv self g w = Some (out, g1, w1)"
    by (auto split: option.splits)
  have i1: "I g1 w1"
    using step [OF Suc.prems(1) s] .
  show ?case
  proof (cases out)
    case (Yielded m)
    with Suc.prems(2) s obtain ys where "pull k n srv self g1 w1 = Some (ys, e, g', w')"
      by (auto split: option.splits)
    then show ?thesis using Suc.IH [OF i1] by blast
  next
    case StopIteration
    then show ?thesis using Suc.prems(2) s i1 by simp
  next
    case (Raised x)
    then show ?thesis using Suc.prems(2) s i1 by simp
  qed
qed

text \<open>
  The two ways into the loop from a call of \<open>next\<close>: what holds at the head of the
  loop, and of a finished generator with the trace as it is, holds after the call.
\<close>

lemma gen_next_cases:
  assumes "gen_next n srv self g w = Some (out, g', w')"
  obtains (created) sid a b ro pd where "g = Created sid a b ro pd"
      "while_loop n srv self (enter sid a b ro pd) w = Some (out, g', w')"
  | (buffered) f m ms p where "g = Suspended f (m # ms) p" "out = Yielded m"
      "g' = Suspended f ms p" "w' = w"
  | (used_up) f p where "g = Suspended f [] p"
      "while_loop n srv self (end_of_page f p) (Sleep (poll_delay f) # w) = Some (out, g', w')"
  | (sleep_raised) f p e where "g = Suspended f [] p" "out = Raised e" "g' = Finished" "w' = w"
  | (finished) "g = Finished" "out = StopIteration" "g' = Finished" "w' = w"
proof (cases g)
  case (Created sid a b ro pd)
  then show ?thesis using assms created by simp
next
  case (Suspended f buf p)
  show ?thesis
  proof (cases buf)
    case Nil
    obtain r w1 where sl: "time_sleep (poll_delay f) w = (r, w1)"
      by fastforce
    from sl show ?thesis
    proof (cases rule: time_sleep_cases)
      case slept
      then show ?thesis using assms Suspended Nil sl used_up by simp
    next
      case (raised e)
      then show ?thesis using assms Suspended Nil sl sleep_raised by auto
    qed
  next
    case (Cons m ms)
    then show ?thesis using assms Suspended buffered by simp
  qed
next
  case Finished
  then show ?thesis using assms finished by simp
qed

text \<open>One round of the loop.\<close>

lemma while_loop_cases:
  assumes "while_loop (Suc n) srv self f w = Some (out, g', w')"
  obtains (stop) "\<not> truthy (need_measurements f)" "out = StopIteration" "g' = Finished" "w' = w"
  | (fetch_raised) e where "truthy (need_measurements f)"
      "get_station_measurements_by_id srv self (f_station_id f) (next_after_ts f)
         (next_before_ts f) (PyInt 2500) (f_reverse_order f) w = (Inl e, w')"
      "out = Raised e" "g' = Finished"
  | (yielded) p m ms where "truthy (need_measurements f)"
      "get_station_measurements_by_id srv self (f_station_id f) (next_after_ts f)
         (next_before_ts f) (PyInt 2500) (f_reverse_order f) w = (Inr p, w')"
      "measurements p = m # ms" "out = Yielded m" "g' = Suspended f ms p"
  | (sleep_raised) p e where "truthy (need_measurements f)"
      "get_station_measurements_by_id srv self (f_station_id f) (next_after_ts f)
         (next_before_ts f) (PyInt 2500) (f_reverse_order f) w = (Inr p, w')"
      "measurements p = []" "out = Raised e" "g' = Finished"
  | (again) p w1 where "truthy (need_measurements f)"
      "get_station_measurements_by_id srv self (f_station_id f) (next_after_ts f)
         (next_before_ts f) (PyInt 2500) (f_reverse_order f) w = (Inr p, w1)"
      "measurements p = []"
      "while_loop n srv self (end_of_page f p) (Sleep (poll_delay f) # w1) = Some (out, g', w')"
proof (cases "truthy (need_measurements f)")
  case False
  then show ?thesis using assms stop by simp
next
  case True
  obtain res w1 where fetch: "get_station_measurements_by_id srv self (f_station_id f)
      (next_after_ts f) (next_before_ts f) (PyInt 2500) (f_reverse_order f) w = (res, w1)"
    by fastforce
  show ?thesis
  proof (cases res)
    case (Inl e)
    then show ?thesis using assms True fetch fetch_raised by simp
  next
    case (Inr p)
    show ?thesis
    proof (cases "measurements p")
      case (Cons m ms)
      then show ?thesis using assms True fetch Inr yielded by simp
    next
      case Nil
      obtain r w2 where sl: "time_sleep (poll_delay f) w1 = (r, w2)"
        by fastforce
      from sl show ?thesis
      proof (cases rule: time_sleep_cases)
        case slept
        then show ?thesis using assms True fetch Inr Nil sl again by simp
      next
        case (raised e)
        then show ?thesis using assms True fetch Inr Nil sl sleep_raised by auto
      qed
    qed
  qed
qed

lemma param_of_after_ts [simp]:
  "param_of (measurements_request self sid a b l ro) ''after_ts'' = a"
  by (simp add: param_of_def query_param_measurements_request params_after_ts)

lemma param_of_before_ts [simp]:
  "param_of (measurements_request self sid a b l ro) ''before_ts'' = b"
  by (simp add: param_of_def query_param_measurements_request params_before_ts)

subsection \<open>Station, direction and delay\<close>



subsection \<open>Pacing\<close>

lemma paced_Request:
  "paced d evs \<Longrightarrow> evs = [] \<or> (\<exists>x rest. evs = Sleep x # rest) \<Longrightarrow> paced d (Request r # evs)"
  by auto

lemma while_loop_paced:
  assumes "while_loop n srv self f (evs @ w0) = Some (out, g', w')"
    and "paced d evs" and "evs = [] \<or> (\<exists>x rest. evs = Sleep x # rest)" and "poll_delay f = d"
  shows "paced_state d w0 g' w'"
  using assms
proof (induction n arbitrary: f evs)
  case 0
  then show ?case by simp
next
  case (Suc n)
  have sent: "paced d (Request r # evs)" for r
    using paced_Request [OF Suc.prems(2,3)] .
  have after: "\<exists>evs'. w1 = evs' @ w0 \<and> paced d evs' \<and>
      (res \<noteq> Inl AssertionError \<longrightarrow> (\<exists>r. evs' = Request r # evs))"
    if "get_station_measurements_by_id srv self (f_station_id f) (next_after_ts f)
         (next_before_ts f) (PyInt 2500) (f_reverse_order f) (evs @ w0) = (res, w1)"
    for res w1
    using that
  proof (cases rule: fetch_cases)
    case refused
    then show ?thesis using Suc.prems(2) by simp
  next
    case sent
    then show ?thesis using paced_Request [OF Suc.prems(2,3)] by simp
  qed
  from Suc.prems(1) show ?case
  proof (cases rule: while_loop_cases)
    case stop
    then show ?thesis using Suc.prems(2) by (auto simp: paced_state_def)
  next
    case (fetch_raised e)
    then show ?thesis using after [OF fetch_raised(2)] by (auto simp: paced_state_def)
  next
    case (yielded p m ms)
    then show ?thesis using after [OF yielded(2)] Suc.prems(4) by (auto simp: paced_state_def)
  next
    case (sleep_raised p e)
    then show ?thesis using after [OF sleep_raised(2)] by (auto simp: paced_state_def)
  next
    case (again p w1)
    from after [OF again(2)] obtain r where w1: "w1 = (Request r # evs) @ w0"
      by auto
    have "while_loop n srv self (end_of_page f p) ((Sleep d # Request r # evs) @ w0) =
        Some (out, g', w')"
      using again(4) w1 Suc.prems(4) by simp
    moreover have "paced d (Sleep d # Request r # evs)"
      using sent by simp
    ultimately show ?thesis
      using Suc.IH [of "end_of_page f p" "Sleep d # Request r # evs"] Suc.prems(4) by simp
  qed
qed

lemma gen_next_paced:
  assumes "paced_state d w0 g w" and "gen_next n srv self g w = Some (out, g', w')"
  shows "paced_state d w0 g' w'"
  using assms(2)
proof (cases rule: gen_next_cases)
  case (created sid a b ro pd)
  then show ?thesis
    using assms(1) while_loop_paced [of n srv self "enter sid a b ro pd" "[]" w0 out g' w' d]
    by (simp add: paced_state_def enter_def)
next
  case (used_up f p)
  from assms(1) used_up(1) obtain r rest where
    evs: "w = (Request r # rest) @ w0" "paced d (Request r # rest)" "poll_delay f = d"
    by (auto simp: paced_state_def)
  have "while_loop n srv self (end_of_page f p) ((Sleep d # Request r # rest) @ w0) =
      Some (out, g', w')"
    using used_up(2) evs by simp
  moreover have "paced d (Sleep d # Request r # rest)"
    using evs(2) by simp
  ultimately show ?thesis
    using while_loop_paced [of n srv self "end_of_page f p" "Sleep d # Request r # rest" w0
        out g' w' d] evs(3)
    by simp
qed (use assms(1) in \<open>auto simp: paced_state_def\<close>)

subsection \<open>Cursor\<close>




text \<open>
  A delay that \<open>time.sleep\<close> refuses ends the iteration after the first page: the
  consumer has the measurements of that page and the \<open>OverflowError\<close>.
\<close>

lemma huge_delay_run:
  "pull 4 4 (scripted three_page_script) demo_api
     (iterate_station_measurements (PyInt 12) PyNone PyNone False (10 ^ 10)) [] =
     Some (map demo_measurement [1, 2], Failed OverflowError, Finished,
           [Request (measurements_request demo_api (PyInt 12) PyNone PyNone (PyInt 2500)
                       False)])"
  by (simp add: eval_nat_numeral iterate_station_measurements_def enter_def end_of_page_def
      Let_def get_station_measurements_by_id_eq scripted_eq three_page_script_def
      page_from_json demo_page_def time_sleep_def)

section \<open>Three pages\<close>



section \<open>Pacing\<close>

text \<open>
  Claim C7. Whatever the consumer does with the iterator, the events it has caused since
  its creation are paced by \<open>max(poll_delay, 0.1)\<close>: requests and sleeps alternate,
  and every sleep between two successive page fetches lasts \<open>max(poll_delay, 0.1)\<close>
  seconds, so at least 0.1 seconds when \<open>poll_delay\<close> is 0. A delay that
  \<open>time.sleep\<close> refuses is followed by no further fetch. The delay is a real number
  here.
\<close>

theorem poll_delay_floor:
  assumes "pull k n srv self (iterate_station_measurements sid a b ro pd) w0 =
             Some (ms, e, g, w)"
  shows "\<exists>evs. w = evs @ w0 \<and> paced (max pd 0.1) evs"
proof -
  have init: "paced_state (max pd 0.1) w0 (iterate_station_measurements sid a b ro pd) w0"
    by (simp add: paced_state_def iterate_station_measurements_def)
  have "paced_state (max pd 0.1) w0 g w"
  proof (rule pull_invariant [where I = "paced_state (max pd 0.1) w0", OF _ init assms])
    fix n g w out g' w'
    assume "paced_state (max pd 0.1) w0 g w" "gen_next n srv self g w = Some (out, g', w')"
    then show "paced_state (max pd 0.1) w0 g' w'"
      by (rule gen_next_paced)
  qed
  then show ?thesis
    by (auto simp: paced_state_def)
qed

theorem poll_delay_floor_witness:
  "pull 4 4 (scripted three_page_script) demo_api
     (iterate_station_measurements (PyInt 12) PyNone PyNone False 0) [] =
     Some (map demo_measurement [1, 2, 3], Exhausted, Finished,
           [Sleep 0.1,
            Request (measurements_request demo_api (PyInt 12) (PyFloat 2) PyNone
                       (PyInt 2500) False),
            Sleep 0.1,
            Request (measurements_request demo_api (PyInt 12) (PyFloat 2) PyNone
                       (PyInt 2500) False),
            Sleep 0.1,
            Request (measurements_request demo_api (PyInt 12) PyNone PyNone
                       (PyInt 2500) False)]) \<and>
   paced 0.1
     [Sleep 0.1,
      Request (measurements_request demo_api (PyInt 12) (PyFloat 2) PyNone (PyInt 2500) False),
      Sleep 0.1,
      Request (measurements_request demo_api (PyInt 12) (PyFloat 2) PyNone (PyInt 2500) False),
      Sleep 0.1,
      Request (measurements_request demo_api (PyInt 12) PyNone PyNone (PyInt 2500) False)]"
proof -
  let ?r1 = "measurements_request demo_api (PyInt 12) PyNone PyNone (PyInt 2500) False"
  let ?r2 = "measurements_request demo_api (PyInt 12) (PyFloat 2) PyNone (PyInt 2500) False"
  have run: "pull 4 4 (scripted three_page_script) demo_api
      (iterate_station_measurements (PyInt 12) PyNone PyNone False 0) [] =
      Some (map demo_measurement [1, 2, 3], Exhausted, Finished,
        [Sleep 0.1, Request ?r2, Sleep 0.1, Request ?r2, Sleep 0.1, Request ?r1])"
    by (simp add: eval_nat_numeral iterate_station_measurements_def enter_def end_of_page_def
        Let_def get_station_measurements_by_id_eq scripted_eq three_page_script_def
        page_from_json demo_page_def time_sleep_fits sleep_fits_floor)
  from poll_delay_floor [OF run] obtain evs where
    "[Sleep 0.1, Request ?r2, Sleep 0.1, Request ?r2, Sleep 0.1, Request ?r1] = evs @ []"
    and "paced (max 0 0.1) evs"
    by blast
  then show ?thesis
    using run by simp
qed

section \<open>Cursor\<close>



section \<open>Errors\<close>



section \<open>Laziness\<close>

text \<open>
  Claim C8, as the code has it. While measurements of the page fetched last are still
  to be delivered, a call of \<open>next\<close> delivers the next of them and has no effect: a
  page is fetched only by a call of \<open>next\<close> that finds every measurement of the pages
  before it delivered. So when the first page holds at least \<open>j\<close> measurements, a
  consumer that stops after \<open>j\<close> of them, for instance after the first, has caused
  exactly one request.
\<close>

theorem fetch_only_when_page_used_up:
  "(j \<le> length buf \<longrightarrow>
      pull j n srv self (Suspended f buf p) w =
        Some (take j buf, Paused, Suspended f (drop j buf) p, w)) \<and>
   (get_station_measurements_by_id srv self sid a b (PyInt 2500) ro w0 = (Inr p1, w1) \<and>
    0 < j \<and> j \<le> length (measurements p1) \<longrightarrow>
      pull j (Suc n) srv self (iterate_station_measurements sid a b ro pd) w0 =
        Some (take j (measurements p1), Paused,
              Suspended (enter sid a b ro pd) (drop j (measurements p1)) p1, w1) \<and>
      requests_of w1 = requests_of w0 @ [measurements_request self sid a b (PyInt 2500) ro])"
proof -
  have buffered: "pull j n srv self (Suspended f buf p) w =
      Some (take j buf, Paused, Suspended f (drop j buf) p, w)"
    if "j \<le> length buf" for j n f buf p w
    using that
  proof (induction j arbitrary: buf)
    case 0
    then show ?case by simp
  next
    case (Suc j)
    then obtain m ms where "buf = m # ms" "j \<le> length ms"
      by (cases buf) auto
    then show ?case using Suc.IH [of ms] by simp
  qed
  show ?thesis
  proof (intro conjI impI)
  assume "j \<le> length buf"
  then show "pull j n srv self (Suspended f buf p) w =
        Some (take j buf, Paused, Suspended f (drop j buf) p, w)"
    by (rule buffered)
next
  assume a: "get_station_measurements_by_id srv self sid a b (PyInt 2500) ro w0 = (Inr p1, w1) \<and>
    0 < j \<and> j \<le> length (measurements p1)"
  then obtain m ms i where ms: "measurements p1 = m # ms" "j = Suc i" "i \<le> length ms"
    by (cases "measurements p1"; cases j) auto
  have "gen_next (Suc n) srv self (iterate_station_measurements sid a b ro pd) w0 =
      Some (Yielded m, Suspended (enter sid a b ro pd) ms p1, w1)"
    using a ms(1) by (simp add: iterate_station_measurements_def enter_def)
  then show "pull j (Suc n) srv self (iterate_station_measurements sid a b ro pd) w0 =
        Some (take j (measurements p1), Paused,
              Suspended (enter sid a b ro pd) (drop j (measurements p1)) p1, w1)"
    using ms buffered [OF ms(3), of "Suc n" "enter sid a b ro pd" p1 w1] by simp
  show "requests_of w1 = requests_of w0 @ [measurements_request self sid a b (PyInt 2500) ro]"
    using a by (auto elim: fetch_Inr_world [elim_format])
  qed
qed

theorem fetch_only_when_page_used_up_witness:
  "(1::nat) \<le> length [demo_measurement 1, demo_measurement 2] \<and>
   pull 1 0 (scripted []) demo_api
     (Suspended (enter (PyInt 12) PyNone PyNone False 0)
        [demo_measurement 1, demo_measurement 2] (demo_page [1, 2] (PyBool True) (PyFloat 2)))
     [] =
     Some ([demo_measurement 1], Paused,
       Suspended (enter (PyInt 12) PyNone PyNone False 0) [demo_measurement 2]
         (demo_page [1, 2] (PyBool True) (PyFloat 2)), []) \<and>
   pull 1 1 (scripted three_page_script) demo_api
     (iterate_station_measurements (PyInt 12) PyNone PyNone False 0) [] =
     Some ([demo_measurement 1], Paused,
       Suspended (enter (PyInt 12) PyNone PyNone False 0) [demo_measurement 2]
         (demo_page [1, 2] (PyBool True) (PyFloat 2)),
       [Request (measurements_request demo_api (PyInt 12) PyNone PyNone (PyInt 2500)
                   False)]) \<and>
   requests_of
     [Request (measurements_request demo_api (PyInt 12) PyNone PyNone (PyInt 2500) False)] =
     [measurements_request demo_api (PyInt 12) PyNone PyNone (PyInt 2500) False]"
proof -
  let ?srv = "scripted three_page_script"
  let ?r1 = "measurements_request demo_api (PyInt 12) PyNone PyNone (PyInt 2500) False"
  let ?p1 = "demo_page [1, 2] (PyBool True) (PyFloat 2)"
  have len: "(1::nat) \<le> length [demo_measurement 1, demo_measurement 2]"
    by simp
  have fetch: "get_station_measurements_by_id ?srv demo_api (PyInt 12) PyNone PyNone
      (PyInt 2500) False [] = (Inr ?p1, [Request ?r1])"
    by (simp add: get_station_measurements_by_id_eq scripted_eq three_page_script_def
        page_from_json)
  have j: "(0::nat) < 1 \<and> (1::nat) \<le> length (measurements ?p1)"
    by (simp add: demo_page_def)
  have a: "pull 1 0 (scripted []) demo_api
      (Suspended (enter (PyInt 12) PyNone PyNone False 0)
         [demo_measurement 1, demo_measurement 2] ?p1) [] =
      Some (take 1 [demo_measurement 1, demo_measurement 2], Paused,
        Suspended (enter (PyInt 12) PyNone PyNone False 0)
          (drop 1 [demo_measurement 1, demo_measurement 2]) ?p1, [])"
    using fetch_only_when_page_used_up [THEN conjunct1, THEN mp, OF len] .
  have b: "pull 1 (Suc 0) ?srv demo_api
      (iterate_station_measurements (PyInt 12) PyNone PyNone False 0) [] =
      Some (take 1 (measurements ?p1), Paused,
        Suspended (enter (PyInt 12) PyNone PyNone False 0) (drop 1 (measurements ?p1)) ?p1,
        [Request ?r1]) \<and>
      requests_of [Request ?r1] = requests_of [] @ [?r1]"
    using fetch_only_when_page_used_up [THEN conjunct2, THEN mp, OF conjI [OF fetch j]] .
  have direct: "pull 1 1 ?srv demo_api
      (iterate_station_measurements (PyInt 12) PyNone PyNone False 0) [] =
      Some ([demo_measurement 1], Paused,
        Suspended (enter (PyInt 12) PyNone PyNone False 0) [demo_measurement 2] ?p1,
        [Request ?r1])"
    by (simp add: iterate_station_measurements_def enter_def
        get_station_measurements_by_id_eq scripted_eq three_page_script_def page_from_json
        demo_page_def)
  have direct': "pull 1 0 (scripted []) demo_api
      (Suspended (enter (PyInt 12) PyNone PyNone False 0)
         [demo_measurement 1, demo_measurement 2] ?p1) [] =
      Some ([demo_measurement 1], Paused,
        Suspended (enter (PyInt 12) PyNone PyNone False 0) [demo_measurement 2] ?p1, [])"
    by simp
  show ?thesis
    using a b direct direct' by (simp add: demo_page_def)
qed

text \<open>
  The claim as worded fails when the first page is empty and reports further data: the
  first call of \<open>next\<close> fetches the second page before it yields the first
  measurement, so a consumer that stops after the first measurement has caused two
  requests.
\<close>

theorem second_fetch_before_first_yield_counterexample:
  "pull 1 2 (scripted empty_first_page_script) demo_api
     (iterate_station_measurements (PyInt 12) PyNone PyNone False 0) [] =
   Some ([demo_measurement 3], Paused,
     Suspended (end_of_page (enter (PyInt 12) PyNone PyNone False 0)
                  (demo_page [] (PyBool True) (PyFloat 2))) []
       (demo_page [3] (PyBool False) PyNone),
     [Request (measurements_request demo_api (PyInt 12) (PyFloat 2) PyNone (PyInt 2500) False),
      Sleep 0.1,
      Request (measurements_request demo_api (PyInt 12) PyNone PyNone (PyInt 2500) False)]) \<and>
   length (requests_of
     [Request (measurements_request demo_api (PyInt 12) (PyFloat 2) PyNone (PyInt 2500) False),
      Sleep 0.1,
      Request (measurements_request demo_api (PyInt 12) PyNone PyNone (PyInt 2500) False)]) = 2"
  by (simp add: eval_nat_numeral iterate_station_measurements_def enter_def end_of_page_def
      Let_def get_station_measurements_by_id_eq scripted_eq empty_first_page_script_def
      page_from_json demo_page_def time_sleep_fits sleep_fits_floor)

end
